theory Spec2Isabelle
  imports Main "HOL-Library.Sublist" "HOL-Library.Char_ord" "HOL-Library.List_Lexorder"
    "HOL-Library.Multiset" "HOL-Library.Log_Nat"
begin

section \<open>Text values\<close>

text \<open>
  A Python \<open>str\<close> is modelled as a \<open>string\<close>, a list of characters, where a character
  is a code point below 256 (the Latin-1 range): \<open>CHR 0xA0\<close> is the non-breaking space
  and \<open>CHR 0xF8\<close> the letter o with stroke of the configurator's output. Code points
  from 256 on are outside the model. Comparison of strings is by code point, as in
  Python (\<open>Char_ord\<close>, \<open>List_Lexorder\<close>).
\<close>

text \<open>
  The whitespace of \<open>str.strip\<close>, \<open>str.isspace\<close> and of the regular expression class
  \<open>\s\<close> on \<open>str\<close> patterns: TAB to CR, the separators 0x1C to 0x1F, the space, NEL
  (0x85) and the non-breaking space (0xA0).
\<close>

definition is_space :: "char \<Rightarrow> bool" where
  "is_space c =
     (let n = (of_char c :: nat)
      in (9 \<le> n \<and> n \<le> 13) \<or> (28 \<le> n \<and> n \<le> 32) \<or> n = 133 \<or> n = 160)"

text \<open>
  \<open>str.lower\<close> on one character: the capital letters A to Z and the capital letters
  0xC0 to 0xDE of Latin-1 (0xD7 is the multiplication sign) move up by 32.
\<close>

definition lower_char :: "char \<Rightarrow> char" where
  "lower_char c =
     (let n = (of_char c :: nat)
      in if (65 \<le> n \<and> n \<le> 90) \<or> (192 \<le> n \<and> n \<le> 222 \<and> n \<noteq> 215)
         then char_of (n + 32) else c)"

definition lower :: "string \<Rightarrow> string" where
  "lower s = map lower_char s"

text \<open>\<open>s.strip()\<close> and \<open>s.strip(chars)\<close>.\<close>

definition strip :: "string \<Rightarrow> string" where
  "strip s = rev (dropWhile is_space (rev (dropWhile is_space s)))"

definition strip_chars :: "string \<Rightarrow> string \<Rightarrow> string" where
  "strip_chars chars s =
     rev (dropWhile (\<lambda>c. c \<in> set chars) (rev (dropWhile (\<lambda>c. c \<in> set chars) s)))"

text \<open>\<open>sub in s\<close> on strings: \<open>sub\<close> occurs in \<open>s\<close> as a contiguous substring.\<close>

fun py_in :: "string \<Rightarrow> string \<Rightarrow> bool" where
  "py_in sub [] = (sub = [])"
| "py_in sub (c # cs) = (prefix sub (c # cs) \<or> py_in sub cs)"

text \<open>\<open>sep.join(xs)\<close>.\<close>

fun join :: "string \<Rightarrow> string list \<Rightarrow> string" where
  "join sep [] = []"
| "join sep [x] = x"
| "join sep (x # y # ys) = x @ sep @ join sep (y # ys)"

text \<open>
  \<open>s.split(sep)\<close> for a separator that is not empty: the occurrences of \<open>sep\<close> are
  found from the left and do not overlap; \<open>acc\<close> holds the current segment reversed.
  Python raises ValueError for an empty separator; the program splits on the literals
  \<open>" - "\<close> and \<open>"-"\<close> only, and for an empty separator this function never cuts.
\<close>

function split_from :: "string \<Rightarrow> string \<Rightarrow> string \<Rightarrow> string list" where
  "split_from sep acc [] = [rev acc]"
| "split_from sep acc (c # cs) =
     (if sep \<noteq> [] \<and> prefix sep (c # cs)
      then rev acc # split_from sep [] (drop (length sep) (c # cs))
      else split_from sep (c # acc) cs)"
  by pat_completeness auto
termination
  by (relation "measure (\<lambda>(sep, acc, s). length s)") auto

definition split :: "string \<Rightarrow> string \<Rightarrow> string list" where
  "split sep s = split_from sep [] s"

section \<open>Spreadsheet cells and TextNormalizer\<close>

text \<open>
  A cell of a table read by pandas is a text or the missing value NaN (an empty
  spreadsheet cell). Numeric cells are outside the model. \<open>str_of\<close> is Python's
  \<open>str(x)\<close>, \<open>isna\<close> is \<open>pd.isna(x)\<close>, and \<open>falsy\<close> is \<open>not x\<close>: a float NaN is
  truthy, the empty string is not.
\<close>

datatype cell = Str string | NaN

fun str_of :: "cell \<Rightarrow> string" where
  "str_of (Str s) = s"
| "str_of NaN = ''nan''"

fun isna :: "cell \<Rightarrow> bool" where
  "isna NaN = True"
| "isna (Str s) = False"

fun falsy :: "cell \<Rightarrow> bool" where
  "falsy (Str s) = (s = [])"
| "falsy NaN = False"

text \<open>
  \<open>normalize_text(s) = re.sub(r"\s+", "", str(s).replace(NBSP, " ")).lower()\<close>, NBSP being
  the non-breaking space U+00A0.
  Replacing every maximal run of whitespace by the empty string removes exactly the
  whitespace characters.
\<close>

definition replace_nbsp :: "string \<Rightarrow> string" where
  "replace_nbsp s = map (\<lambda>c. if c = CHR 0xA0 then CHR '' '' else c) s"

definition remove_whitespace :: "string \<Rightarrow> string" where
  "remove_whitespace s = filter (\<lambda>c. \<not> is_space c) s"

definition normalize_text :: "cell \<Rightarrow> string" where
  "normalize_text s = lower (remove_whitespace (replace_nbsp (str_of s)))"

definition normalize_col :: "string \<Rightarrow> string" where
  "normalize_col col = normalize_text (Str col)"

section \<open>CatalogMatcher\<close>

text \<open>
  A catalog row (a pandas Series) is an association list from the normalised column
  name to the cell; \<open>row_get r k d\<close> is \<open>r.get(k, d)\<close>. The catalog is the list of its
  rows in table order, which is the order of \<open>iterrows\<close>.
\<close>

type_synonym row = "(string \<times> cell) list"

definition row_get :: "row \<Rightarrow> string \<Rightarrow> cell \<Rightarrow> cell" where
  "row_get r k d = (case map_of r k of Some v \<Rightarrow> v | None \<Rightarrow> d)"

text \<open>The two loops of \<open>find_mapping_row\<close>, each returning from its first hit.\<close>

primrec first_exact :: "string \<Rightarrow> string \<Rightarrow> row list \<Rightarrow> row option" where
  "first_exact norm_item mapping_prod_key [] = None"
| "first_exact norm_item mapping_prod_key (r # rs) =
     (if normalize_text (row_get r mapping_prod_key (Str [])) = norm_item then Some r
      else first_exact norm_item mapping_prod_key rs)"

primrec first_startswith :: "string \<Rightarrow> string \<Rightarrow> row list \<Rightarrow> row option" where
  "first_startswith partial mapping_prod_key [] = None"
| "first_startswith partial mapping_prod_key (r # rs) =
     (if prefix partial (normalize_text (row_get r mapping_prod_key (Str []))) then Some r
      else first_startswith partial mapping_prod_key rs)"

definition find_mapping_row :: "string \<Rightarrow> row list \<Rightarrow> string \<Rightarrow> row option" where
  "find_mapping_row item_no mapping_df mapping_prod_key =
     (let norm_item = normalize_text (Str item_no)
      in case first_exact norm_item mapping_prod_key mapping_df of
           Some r \<Rightarrow> Some r
         | None \<Rightarrow>
             if py_in ''-'' item_no
             then first_startswith (normalize_text (Str (hd (split ''-'' item_no))))
                    mapping_prod_key mapping_df
             else None)"

text \<open>
  The matching algorithm in the words of the specification: the first row whose key
  field normalises to the normalised item code; failing that, and if the code has a
  hyphen, the first row whose normalised key field starts with the normalised text
  before the first hyphen; otherwise nothing.
\<close>

definition match_spec :: "string \<Rightarrow> row list \<Rightarrow> string \<Rightarrow> row option" where
  "match_spec itemCode catalog keyField =
     (case find (\<lambda>r. normalize_text (row_get r keyField (Str [])) = normalize_text (Str itemCode))
             catalog of
        Some r \<Rightarrow> Some r
      | None \<Rightarrow>
          if CHR ''-'' \<in> set itemCode
          then find (\<lambda>r. prefix (normalize_text (Str (takeWhile (\<lambda>c. c \<noteq> CHR ''-'') itemCode)))
                            (normalize_text (row_get r keyField (Str [])))) catalog
          else None)"

section \<open>VariantGrouper\<close>

text \<open>
  \<open>group_by_color_and_size\<close>. The dictionary \<open>groups\<close> keeps its keys in insertion
  order and is an association list from the colour to the set of its sizes;
  \<open>setdefault\<close> appends a colour that is not yet a key with the empty set.
\<close>

definition parse_variant :: "string \<Rightarrow> string \<times> string" where
  "parse_variant name =
     (if py_in '' - '' name
      then (let parts = split '' - '' name in (strip (hd parts), strip (last parts)))
      else (strip name, []))"

definition setdefault :: "(string \<times> string set) list \<Rightarrow> string \<Rightarrow> (string \<times> string set) list" where
  "setdefault groups color =
     (if color \<in> fst ` set groups then groups else groups @ [(color, {})])"

definition add_size :: "(string \<times> string set) list \<Rightarrow> string \<Rightarrow> string \<Rightarrow> (string \<times> string set) list" where
  "add_size groups color sz =
     map (\<lambda>(k, sizes). if k = color then (k, insert sz sizes) else (k, sizes)) groups"

definition group_step :: "string \<Rightarrow> (string \<times> string set) list \<Rightarrow> (string \<times> string set) list" where
  "group_step name groups =
     (case parse_variant name of
        (color, sz) \<Rightarrow>
          (let groups1 = setdefault groups color
           in if sz \<noteq> [] then add_size groups1 color sz else groups1))"

definition render_line :: "string \<times> string set \<Rightarrow> string" where
  "render_line g =
     (case g of
        (color, sizes) \<Rightarrow>
          if sizes \<noteq> {} then color @ '': '' @ join '', '' (sorted_list_of_set sizes)
          else color)"

definition group_by_color_and_size :: "string list \<Rightarrow> string" where
  "group_by_color_and_size variant_names =
     join [CHR 0x0A] (sort (map render_line (fold group_step variant_names [])))"





section \<open>ProductConfigurator\<close>

text \<open>
  The fixed table of product combinations, in declaration order (a Python dictionary
  iterates in insertion order), the default sizes and the sizes of single surfaces.
\<close>

definition leg_colors :: "string list" where
  "leg_colors = [''Black'', ''Grey'', ''Sand'', ''White'']"

definition products :: "((string \<times> string \<times> string) \<times> string list) list" where
  "products =
     [((''Black Linoleum'', ''Plywood'', ''Plywood''), leg_colors),
      ((''Grey Linoleum'', ''Plywood'', ''Plywood''), leg_colors),
      ((''Oak Lacquered Oak Veneer'', ''Plywood'', ''Plywood''), leg_colors),
      ((''Oak Oiled Oak'', ''Oak Oiled Oak'', ''Oak Oiled Oak''), leg_colors),
      ((''Sand Laminate'', ''Plywood'', ''Plywood''), leg_colors),
      ((''Smoked Oak Oiled Oak'', ''Smoked Oak Oiled Oak'', ''Smoked Oak Oiled Oak''), leg_colors),
      ((''White Laminate'', ''Plywood'', ''Plywood''), leg_colors)]"

definition default_sizes :: "string list" where
  \<open>default_sizes =
     [''170 x 85 cm / 67 x 33.5"'',
      ''225 x 90 cm / 88.5 x 35.5"'',
      ''255 x 108 cm / 100.5 x 42.5"'',
      ''295 x 108 cm / 116 x 42.5"'']\<close>

definition sand_laminate_sizes :: "string list" where
  \<open>sand_laminate_sizes =
     [''225 x 90 cm / 88.5 x 35.5"'',
      ''255 x 108 cm / 100.5 x 42.5"'',
      ''295 x 108 cm / 116 x 42.5"'']\<close>

definition specific_sizes :: "(string \<times> string list) list" where
  "specific_sizes = [(''Sand Laminate'', sand_laminate_sizes)]"

text \<open>
  \<open>get_options\<close> returns the leg colours and the sizes of the first table entry whose
  surface name, lowered, occurs in the lowered product name, and nothing (None) when
  there is none.
\<close>

fun get_options_loop ::
  "((string \<times> string \<times> string) \<times> string list) list \<Rightarrow> string \<Rightarrow> (string list \<times> string list) option" where
  "get_options_loop [] product_name = None"
| "get_options_loop (((surface, core, legs), colors) # rest) product_name =
     (if py_in (lower surface) (lower product_name)
      then Some (colors, case map_of specific_sizes surface of
                           Some sizes \<Rightarrow> sizes
                         | None \<Rightarrow> default_sizes)
      else get_options_loop rest product_name)"

definition get_options :: "string \<Rightarrow> (string list \<times> string list) option" where
  "get_options product_name = get_options_loop products product_name"

section \<open>StockResolver\<close>

text \<open>
  A row of the stock table has the four columns that \<open>main\<close> requires before any item
  is processed, so the lookups of these columns find them.
\<close>

record stock_row =
  productkey :: cell
  variantname :: cell
  rts :: cell
  mto :: cell

text \<open>\<open>list(dict.fromkeys(xs))\<close>: a key is appended when it is met for the first time.\<close>

definition dict_fromkeys :: "'a list \<Rightarrow> 'a list" where
  "dict_fromkeys xs = fold (\<lambda>k d. if k \<in> set d then d else d @ [k]) xs []"

text \<open>The two-line text made from the options of the configurator.\<close>

definition configurator_text :: "string list \<times> string list \<Rightarrow> string" where
  "configurator_text options =
     ''Benfarver: '' @ join '', '' (fst options) @ [CHR 0x0A]
       @ ''St'' @ [CHR 0xF8] @ ''rrelser: '' @ join '', '' (snd options)"

text \<open>
  \<open>process_stock_rts_alternative\<close> and \<open>process_stock_mto_alternative\<close> are the same
  function up to the availability column they read, which is the parameter \<open>flag\<close>.
\<close>

definition process_stock_alternative :: "(stock_row \<Rightarrow> cell) \<Rightarrow> row \<Rightarrow> stock_row list \<Rightarrow> string" where
  "process_stock_alternative flag mapping_row stock_df =
     (let product_key = row_get mapping_row ''productkey'' (Str [])
      in if falsy product_key \<or> isna product_key then []
         else
           let norm_product_key = normalize_text product_key;
               filtered = filter (\<lambda>r. normalize_text (productkey r) = norm_product_key) stock_df
           in if filtered = [] then []
              else
                let available = filter (\<lambda>r. \<not> isna (flag r) \<and> flag r \<noteq> Str []) filtered
                in if available = [] then []
                   else
                     let variant_names =
                           map str_of (filter (\<lambda>v. \<not> isna v) (map variantname available));
                         unique_variant_names = dict_fromkeys variant_names;
                         product_name =
                           str_of (row_get mapping_row (normalize_col ''{{Product name}}'') (Str []))
                     in case get_options product_name of
                          Some options \<Rightarrow> configurator_text options
                        | None \<Rightarrow> group_by_color_and_size unique_variant_names)"

definition process_stock_rts_alternative :: "row \<Rightarrow> stock_row list \<Rightarrow> string" where
  "process_stock_rts_alternative mapping_row stock_df =
     process_stock_alternative rts mapping_row stock_df"

definition process_stock_mto_alternative :: "row \<Rightarrow> stock_row list \<Rightarrow> string" where
  "process_stock_mto_alternative mapping_row stock_df =
     process_stock_alternative mto mapping_row stock_df"









section \<open>Slides\<close>

text \<open>
  A run carries its text, its character formatting (an opaque identifier: no pass
  reads or writes it) and the address of its hyperlink, if it has one. A paragraph is
  the list of its runs. A shape has a position and a size in the units of the
  presentation (EMU); a text-bearing shape has paragraphs, a picture shape has the
  bitmap it shows. A slide is the list of its shapes. A bitmap has its size in pixels
  and its native size in EMU, which the presentation library derives from the pixel
  size and the resolution of the image file (12700 EMU for a pixel at its default of
  72 dots per inch); both are positive for a decoded image.
\<close>

record run =
  run_text :: string
  run_format :: nat
  run_link :: "string option"

record bitmap =
  img_width :: nat
  img_height :: nat
  native_width :: int
  native_height :: int

record shape =
  has_text_frame :: bool
  paragraphs :: "run list list"
  sh_left :: int
  sh_top :: int
  sh_width :: int
  sh_height :: int
  sh_picture :: "bitmap option"

type_synonym slide = "shape list"

text \<open>
  \<open>shape.text\<close>: the texts of the paragraphs, each the concatenation of its runs,
  joined by line feeds. Assigning the empty string to \<open>shape.text\<close> leaves one
  paragraph without runs.
\<close>

definition paragraph_text :: "run list \<Rightarrow> string" where
  "paragraph_text runs = concat (map run_text runs)"

definition shape_text :: "shape \<Rightarrow> string" where
  "shape_text sh = join [CHR 0x0A] (map paragraph_text (paragraphs sh))"

definition clear_text :: "shape \<Rightarrow> shape" where
  "clear_text sh = sh\<lparr>paragraphs := [[]]\<rparr>"

section \<open>Placeholder tokens and re.sub\<close>

text \<open>
  The exceptions that leave \<open>re.sub\<close>: \<open>re.error\<close> for a replacement string that is
  not a valid template, and IndexError for a reference to a group name that the
  pattern does not have.
\<close>

datatype error = ReError | IndexError

text \<open>
  The pattern built for a placeholder is \<open>\{\{\s*KEY\s*\}\}\<close>, with
  \<open>KEY = re.escape(placeholder.strip("{}").strip())\<close>, which matches the key
  literally. \<open>match_token key s\<close> is the match of this pattern at the start of \<open>s\<close>,
  if there is one. A key never starts with whitespace (it is stripped), so what the
  first \<open>\s*\<close> takes is all the whitespace before the key, and the closing braces
  are no whitespace, so neither \<open>\s*\<close> ever gives a character back.
\<close>

definition placeholder_key :: "string \<Rightarrow> string" where
  "placeholder_key placeholder = strip (strip_chars ''{}'' placeholder)"

definition match_token :: "string \<Rightarrow> string \<Rightarrow> string option" where
  "match_token key s =
     (if prefix ''{{'' s then
        let s1 = drop 2 s; ws1 = takeWhile is_space s1; s2 = dropWhile is_space s1
        in if prefix key s2 then
             let s3 = drop (length key) s2; ws2 = takeWhile is_space s3;
                 s4 = dropWhile is_space s3
             in if prefix ''}}'' s4 then Some (''{{'' @ ws1 @ key @ ws2 @ ''}}'') else None
           else None
      else None)"

text \<open>\<open>re.search(pattern, s)\<close> as a truth value: the pattern matches somewhere.\<close>

fun re_search :: "string \<Rightarrow> string \<Rightarrow> bool" where
  "re_search key [] = False"
| "re_search key (c # cs) = (match_token key (c # cs) \<noteq> None \<or> re_search key cs)"

text \<open>
  The replacement string of \<open>re.sub\<close> is a template (\<open>parse_template\<close> of
  CPython's \<open>re\<close>, as of version 3.12; earlier versions also accept, with a warning,
  a group name such as \<open>+0\<close> that \<open>int\<close> reads as zero): a backslash starts an
  escape. \<open>\g<0>\<close> (any number
  of zeros) stands for the whole match; the pattern has no group, so every other group
  reference is an error. \<open>\0\<close> with up to two more octal digits and a backslash with
  three octal digits are the character of that code; a backslash before one of
  \<open>a b f n r t v\<close> or a backslash is a control character or the backslash; before any
  other ASCII letter it is an error; before any other character both stay as they are.
  A backslash at the end of the template is an error.
\<close>

datatype template_item = Lit char | Whole_match

definition is_digit :: "char \<Rightarrow> bool" where
  "is_digit c = (let n = (of_char c :: nat) in 48 \<le> n \<and> n \<le> 57)"

definition is_octdigit :: "char \<Rightarrow> bool" where
  "is_octdigit c = (let n = (of_char c :: nat) in 48 \<le> n \<and> n \<le> 55)"

definition is_ascii_letter :: "char \<Rightarrow> bool" where
  "is_ascii_letter c =
     (let n = (of_char c :: nat) in (65 \<le> n \<and> n \<le> 90) \<or> (97 \<le> n \<and> n \<le> 122))"

text \<open>
  \<open>str.isidentifier\<close> in the Latin-1 range: a letter or an underscore, followed by
  letters, underscores, digits and middle dots.
\<close>

definition is_id_start :: "char \<Rightarrow> bool" where
  "is_id_start c =
     (let n = (of_char c :: nat)
      in is_ascii_letter c \<or> n = 95 \<or> n = 170 \<or> n = 181 \<or> n = 186
         \<or> (192 \<le> n \<and> n \<noteq> 215 \<and> n \<noteq> 247))"

definition is_identifier :: "string \<Rightarrow> bool" where
  "is_identifier name =
     (name \<noteq> [] \<and> is_id_start (hd name)
      \<and> list_all (\<lambda>c. is_id_start c \<or> is_digit c \<or> of_char c = (183 :: nat)) name)"

definition octal_value :: "string \<Rightarrow> nat" where
  "octal_value ds = foldl (\<lambda>v d. 8 * v + (of_char d - 48)) 0 ds"

definition escapes :: "(char \<times> char) list" where
  "escapes =
     [(CHR ''a'', CHR 0x07), (CHR ''b'', CHR 0x08), (CHR ''f'', CHR 0x0C),
      (CHR ''n'', CHR 0x0A), (CHR ''r'', CHR 0x0D), (CHR ''t'', CHR 0x09),
      (CHR ''v'', CHR 0x0B), (CHR 0x5C, CHR 0x5C)]"

text \<open>
  The group reference after \<open>\g\<close>: \<open>rest\<close> is the template after the \<open>g\<close>. The
  result is the template after the closing \<open>>\<close> when the name is a run of zeros.
\<close>

definition group_reference :: "string \<Rightarrow> error + string" where
  "group_reference rest =
     (case rest of
        [] \<Rightarrow> Inl ReError
      | c # after_lt \<Rightarrow>
          if c \<noteq> CHR ''<'' then Inl ReError
          else if CHR ''>'' \<notin> set after_lt then Inl ReError
          else
            let name = takeWhile (\<lambda>x. x \<noteq> CHR ''>'') after_lt
            in if name = [] then Inl ReError
               else if list_all is_digit name then
                 (if list_all (\<lambda>d. d = CHR ''0'') name
                  then Inr (drop (Suc (length name)) after_lt)
                  else Inl ReError)
               else if is_identifier name then Inl IndexError
               else Inl ReError)"

function parse_template :: "string \<Rightarrow> error + template_item list" where
  "parse_template [] = Inr []"
| "parse_template (c # rest) =
     (if c \<noteq> CHR 0x5C then map_sum id (Cons (Lit c)) (parse_template rest)
      else
        case rest of
          [] \<Rightarrow> Inl ReError
        | e # rest1 \<Rightarrow>
            if e = CHR ''g'' then
              (case group_reference rest1 of
                 Inl err \<Rightarrow> Inl err
               | Inr rest2 \<Rightarrow>
                   map_sum id (Cons Whole_match)
                     (parse_template (drop (length rest1 - length rest2) rest1)))
            else if e = CHR ''0'' then
              (let ds = takeWhile is_octdigit (take 2 rest1)
               in map_sum id (Cons (Lit (char_of (octal_value ds mod 256))))
                    (parse_template (drop (length ds) rest1)))
            else if is_digit e then
              (if rest1 \<noteq> [] \<and> is_digit (hd rest1) \<and> is_octdigit e \<and> is_octdigit (hd rest1)
                  \<and> tl rest1 \<noteq> [] \<and> is_octdigit (hd (tl rest1))
               then
                 (let v = octal_value (e # take 2 rest1)
                  in if v > 255 then Inl ReError
                     else map_sum id (Cons (Lit (char_of v))) (parse_template (drop 2 rest1)))
               else Inl ReError)
            else
              (case map_of escapes e of
                 Some x \<Rightarrow> map_sum id (Cons (Lit x)) (parse_template rest1)
               | None \<Rightarrow>
                   if is_ascii_letter e then Inl ReError
                   else map_sum id (\<lambda>items. Lit c # Lit e # items) (parse_template rest1)))"
  by pat_completeness auto
termination
  by (relation "measure length") auto

definition expand_template :: "template_item list \<Rightarrow> string \<Rightarrow> string" where
  "expand_template items m =
     concat (map (\<lambda>i. case i of Lit c \<Rightarrow> [c] | Whole_match \<Rightarrow> m) items)"

text \<open>
  The substitution loop of \<open>re.sub\<close>: matches are looked for from the left and do not
  overlap; a match is never empty, so after a match that starts at \<open>c\<close> the scan goes
  on behind the match.
\<close>

fun sub_from :: "string \<Rightarrow> template_item list \<Rightarrow> string \<Rightarrow> string" where
  "sub_from key items [] = []"
| "sub_from key items (c # cs) =
     (case match_token key (c # cs) of
        Some m \<Rightarrow> expand_template items m @ sub_from key items (drop (length m - 1) cs)
      | None \<Rightarrow> c # sub_from key items cs)"

definition re_sub :: "string \<Rightarrow> string \<Rightarrow> string \<Rightarrow> error + string" where
  "re_sub key repl text =
     (case parse_template repl of
        Inl err \<Rightarrow> Inl err
      | Inr items \<Rightarrow> Inr (sub_from key items text))"

section \<open>SlideComposer: the text pass\<close>

text \<open>
  The dictionaries of placeholder values keep their insertion order and are
  association lists; \<open>dict_get d k v\<close> is \<open>d.get(k, v)\<close>. A loop that an exception
  leaves is \<open>try_map\<close>: the elements are processed from the left and the first error is
  the result.
\<close>

definition dict_get :: "(string \<times> 'v) list \<Rightarrow> string \<Rightarrow> 'v \<Rightarrow> 'v" where
  "dict_get d k v = (case map_of d k of Some x \<Rightarrow> x | None \<Rightarrow> v)"

fun try_map :: "('a \<Rightarrow> error + 'b) \<Rightarrow> 'a list \<Rightarrow> error + 'b list" where
  "try_map f [] = Inr []"
| "try_map f (x # xs) =
     (case f x of
        Inl err \<Rightarrow> Inl err
      | Inr y \<Rightarrow> (case try_map f xs of Inl err \<Rightarrow> Inl err | Inr ys \<Rightarrow> Inr (y # ys)))"

text \<open>
  Assigning a string to \<open>run.text\<close> stores it with every control character other
  than the tab and the line feed (the characters 0x00 to 0x08 and 0x0B to 0x1F)
  replaced by the seven characters \<open>_xHHHH_\<close>, \<open>HHHH\<close> being its code in four
  capital hexadecimal digits: this is what the presentation library does, and what
  \<open>run.text\<close> gives back.
\<close>

definition is_ctrl :: "char \<Rightarrow> bool" where
  "is_ctrl c = (let n = (of_char c :: nat) in n \<le> 8 \<or> (11 \<le> n \<and> n \<le> 31))"

definition hex_digit :: "nat \<Rightarrow> char" where
  "hex_digit d = (if d < 10 then char_of (48 + d) else char_of (55 + d))"

definition escape_ctrl_chars :: "string \<Rightarrow> string" where
  "escape_ctrl_chars s =
     concat (map (\<lambda>c. if is_ctrl c
                        then ''_x00'' @ [hex_digit (of_char c div 16), hex_digit (of_char c mod 16)]
                             @ ''_''
                        else [c]) s)"

definition set_run_text :: "run \<Rightarrow> string \<Rightarrow> run" where
  "set_run_text r t = r\<lparr>run_text := escape_ctrl_chars t\<rparr>"

text \<open>
  \<open>replace_text_placeholders\<close>. The inner loop applies the substitutions one after the
  other, each to the result of the one before; then every run is emptied and the new
  text is written into the first run.
\<close>

fun substitute_all :: "(string \<times> string) list \<Rightarrow> string \<Rightarrow> error + string" where
  "substitute_all [] new_text = Inr new_text"
| "substitute_all ((placeholder, replacement) # rest) new_text =
     (case re_sub (placeholder_key placeholder) replacement new_text of
        Inl err \<Rightarrow> Inl err
      | Inr t \<Rightarrow> substitute_all rest t)"

definition replace_paragraph :: "(string \<times> string) list \<Rightarrow> run list \<Rightarrow> error + run list" where
  "replace_paragraph placeholder_values runs =
     (let full_text = concat (map run_text runs)
      in case substitute_all placeholder_values full_text of
           Inl err \<Rightarrow> Inl err
         | Inr new_text \<Rightarrow>
             Inr (case map (\<lambda>r. set_run_text r []) runs of
                    [] \<Rightarrow> []
                  | first_run # others \<Rightarrow> set_run_text first_run new_text # others))"

definition replace_text_shape :: "(string \<times> string) list \<Rightarrow> shape \<Rightarrow> error + shape" where
  "replace_text_shape placeholder_values sh =
     (if has_text_frame sh
      then (case try_map (replace_paragraph placeholder_values) (paragraphs sh) of
              Inl err \<Rightarrow> Inl err
            | Inr ps \<Rightarrow> Inr (sh\<lparr>paragraphs := ps\<rparr>))
      else Inr sh)"

definition replace_text_placeholders :: "slide \<Rightarrow> (string \<times> string) list \<Rightarrow> error + slide" where
  "replace_text_placeholders slide placeholder_values =
     try_map (replace_text_shape placeholder_values) slide"

section \<open>SlideComposer: the hyperlink pass\<close>

text \<open>
  \<open>replace_hyperlink_placeholders\<close> works run by run. Setting the address of a
  hyperlink to the empty string removes the hyperlink; a failure of the assignment is
  caught and reported and leaves the text as substituted.
\<close>

fun replace_link_run :: "(string \<times> string \<times> string) list \<Rightarrow> run \<Rightarrow> error + run" where
  "replace_link_run [] r = Inr r"
| "replace_link_run ((placeholder, display_text, url) # rest) r =
     (let key = placeholder_key placeholder
      in if re_search key (run_text r)
         then (case re_sub key display_text (run_text r) of
                 Inl err \<Rightarrow> Inl err
               | Inr t \<Rightarrow>
                   replace_link_run rest
                     ((set_run_text r t)\<lparr>run_link := (if url = [] then None else Some url)\<rparr>))
         else replace_link_run rest r)"

definition replace_link_shape :: "(string \<times> string \<times> string) list \<Rightarrow> shape \<Rightarrow> error + shape" where
  "replace_link_shape hyperlink_values sh =
     (if has_text_frame sh
      then (case try_map (try_map (replace_link_run hyperlink_values)) (paragraphs sh) of
              Inl err \<Rightarrow> Inl err
            | Inr ps \<Rightarrow> Inr (sh\<lparr>paragraphs := ps\<rparr>))
      else Inr sh)"

definition replace_hyperlink_placeholders ::
  "slide \<Rightarrow> (string \<times> string \<times> string) list \<Rightarrow> error + slide" where
  "replace_hyperlink_placeholders slide hyperlink_values =
     try_map (replace_link_shape hyperlink_values) slide"

section \<open>SlideComposer: the image pass\<close>

definition IMAGE_PLACEHOLDERS_ORIG :: "string list" where
  "IMAGE_PLACEHOLDERS_ORIG =
     [''{{Product Packshot1}}'', ''{{Product Lifestyle1}}'', ''{{Product Lifestyle2}}'',
      ''{{Product Lifestyle3}}'', ''{{Product Lifestyle4}}'']"

text \<open>
  Two parts of the pass are parameters. \<open>fetch url\<close> is what
  \<open>fetch_and_process_image_cached\<close> returns for the address: the decoded bitmap, or
  nothing when the download or the decoding fails. \<open>fit\<close> is the floating-point
  computation of lines 272 to 274: from the width and height of the bitmap and the
  width and height of the shape to the width and height of the picture. A decoded
  bitmap has a positive width and height.

  The tasks are the placeholders of the fixed list whose address is not empty, and the
  results map each of them to what \<open>fetch\<close> returns; the order in which the worker
  threads finish does not show in a dictionary with these keys.
\<close>

type_synonym fit = "nat \<Rightarrow> nat \<Rightarrow> int \<Rightarrow> int \<Rightarrow> int \<times> int"

text \<open>
  The arithmetic of lines 272 to 274 is that of Python's floats, IEEE 754 binary64. A
  float is modelled by the rational number it stands for, and every operation gives
  the exact result rounded to the nearest number with a significand of 53 bits, a tie
  going to the even significand (\<open>fl\<close>). \<open>ilog2 x\<close> is the exponent of \<open>x\<close>, the
  integer \<open>e\<close> with \<open>2 ^ e \<le> x < 2 ^ (e + 1)\<close>, and \<open>rne\<close> rounds to the nearest
  integer, ties to even. The range of the exponent is not modelled: the widths and
  heights of shapes and bitmaps are far inside it. \<open>trunc\<close> is \<open>int(x)\<close>.

  \<open>python_fit\<close> is the computation of the source: the true division of two integers
  is correctly rounded, an integer is converted to a float before it is multiplied,
  and a decoded bitmap has a positive width and height, so the divisions are defined.
\<close>

definition ilog2 :: "rat \<Rightarrow> int" where
  "ilog2 x = (if 1 \<le> x then bitlen \<lfloor>x\<rfloor> - 1 else - bitlen (\<lceil>1 / x\<rceil> - 1))"

definition rne :: "rat \<Rightarrow> int" where
  "rne q =
     (let f = \<lfloor>q\<rfloor>; d = q - of_int f
      in if d < 1 / 2 then f else if 1 / 2 < d then f + 1 else if even f then f else f + 1)"

definition fl_pos :: "rat \<Rightarrow> rat" where
  "fl_pos x = (let u = 2 powi (ilog2 x - 52) in of_int (rne (x / u)) * u)"

definition fl :: "rat \<Rightarrow> rat" where
  "fl x = (if x = 0 then 0 else if x < 0 then - fl_pos (- x) else fl_pos x)"

definition trunc :: "rat \<Rightarrow> int" where
  "trunc x = (if 0 \<le> x then \<lfloor>x\<rfloor> else \<lceil>x\<rceil>)"

definition python_fit :: "nat \<Rightarrow> nat \<Rightarrow> int \<Rightarrow> int \<Rightarrow> int \<times> int" where
  "python_fit original_width original_height target_width target_height =
     (let scale = min (fl (of_int target_width / of_nat original_width))
                      (fl (of_int target_height / of_nat original_height))
      in (trunc (fl (fl (of_nat original_width) * scale)),
          trunc (fl (fl (of_nat original_height) * scale))))"

definition fetch_results ::
  "(string \<Rightarrow> bitmap option) \<Rightarrow> (string \<times> string) list \<Rightarrow> (string \<times> bitmap option) list" where
  "fetch_results fetch image_values =
     map (\<lambda>(ph, url). (ph, fetch url))
       (filter (\<lambda>(ph, url). url \<noteq> [])
          (map (\<lambda>ph. (ph, dict_get image_values ph [])) IMAGE_PLACEHOLDERS_ORIG))"

text \<open>
  \<open>add_picture\<close> of the presentation library (python-pptx 1.0) takes a width and a
  height that are not zero as they are. A width or height of zero counts as not given:
  when one of them is zero it is computed from the other and the native size of the
  image, keeping the aspect ratio (in float arithmetic, rounded to the nearest
  integer, ties to the even one), and when both are zero the picture gets the native
  size of the image. Earlier versions of the library keep a zero.
\<close>

definition pptx_scale :: "bitmap \<Rightarrow> int \<Rightarrow> int \<Rightarrow> int \<times> int" where
  "pptx_scale img scaled_cx scaled_cy =
     (if scaled_cx \<noteq> 0 \<and> scaled_cy \<noteq> 0 then (scaled_cx, scaled_cy)
      else if scaled_cx \<noteq> 0 then
        (let scaling_factor = fl (fl (of_int scaled_cx) / fl (of_int (native_width img)))
         in (scaled_cx, rne (fl (fl (of_int (native_height img)) * scaling_factor))))
      else if scaled_cy \<noteq> 0 then
        (let scaling_factor = fl (fl (of_int scaled_cy) / fl (of_int (native_height img)))
         in (rne (fl (fl (of_int (native_width img)) * scaling_factor)), scaled_cy))
      else (native_width img, native_height img))"

definition add_picture :: "bitmap \<Rightarrow> int \<Rightarrow> int \<Rightarrow> int \<Rightarrow> int \<Rightarrow> shape" where
  "add_picture img x y w h =
     (case pptx_scale img w h of
        (cx, cy) \<Rightarrow>
          \<lparr>has_text_frame = False, paragraphs = [], sh_left = x, sh_top = y,
           sh_width = cx, sh_height = cy, sh_picture = Some img\<rparr>)"

text \<open>
  The inner loop over the placeholders, for one shape: the result is the shape and the
  pictures added to the slide. The loop ends (\<open>break\<close>) at the first placeholder whose
  normalised token occurs in the normalised text of the shape, whether a picture is
  inserted or not.
\<close>

fun scan_image_placeholders ::
  "fit \<Rightarrow> (string \<times> string) list \<Rightarrow> (string \<times> bitmap option) list \<Rightarrow> shape \<Rightarrow> string list
     \<Rightarrow> shape \<times> shape list" where
  "scan_image_placeholders fit image_values results sh [] = (sh, [])"
| "scan_image_placeholders fit image_values results sh (ph # phs) =
     (if py_in (normalize_text (Str ph)) (normalize_text (Str (shape_text sh)))
      then
        (let url = dict_get image_values ph []
         in case (if url \<noteq> [] then dict_get results ph None else None) of
              Some img \<Rightarrow>
                (case fit (img_width img) (img_height img) (sh_width sh) (sh_height sh) of
                   (new_width, new_height) \<Rightarrow>
                     (clear_text sh,
                      [add_picture img (sh_left sh) (sh_top sh) new_width new_height]))
            | None \<Rightarrow> (sh, []))
      else scan_image_placeholders fit image_values results sh phs)"

definition image_shape ::
  "fit \<Rightarrow> (string \<times> string) list \<Rightarrow> (string \<times> bitmap option) list \<Rightarrow> shape
     \<Rightarrow> shape \<times> shape list" where
  "image_shape fit image_values results sh =
     (if has_text_frame sh
      then scan_image_placeholders fit image_values results sh IMAGE_PLACEHOLDERS_ORIG
      else (sh, []))"

text \<open>
  The pictures are appended to the shapes of the slide while the loop runs over them;
  the loop then meets the new pictures as well, which have no text frame and are left
  as they are. The slide after the pass is the shapes it had, each as the pass left
  it, followed by the pictures in the order of their insertion.
\<close>

definition replace_image_placeholders_parallel ::
  "fit \<Rightarrow> (string \<Rightarrow> bitmap option) \<Rightarrow> slide \<Rightarrow> (string \<times> string) list \<Rightarrow> slide" where
  "replace_image_placeholders_parallel fit fetch slide image_values =
     (let results = fetch_results fetch image_values;
          done = map (image_shape fit image_values results) slide
      in map fst done @ concat (map snd done))"

section \<open>The batch loop of main\<close>

definition TEXT_PLACEHOLDERS_ORIG :: "(string \<times> string) list" where
  "TEXT_PLACEHOLDERS_ORIG =
     [(''{{Product name}}'', ''Product Name:''),
      (''{{Product code}}'', ''Product Code:''),
      (''{{Product country of origin}}'', ''Country of origin:''),
      (''{{Product height}}'', ''Height:''),
      (''{{Product width}}'', ''Width:''),
      (''{{Product length}}'', ''Length:''),
      (''{{Product depth}}'', ''Depth:''),
      (''{{Product seat height}}'', ''Seat Height:''),
      (''{{Product diameter}}'', ''Diameter:''),
      (''{{CertificateName}}'', ''Test & certificates for the product:''),
      (''{{Product Consumption COM}}'', ''Consumption information for COM:'')]"

definition HYPERLINK_PLACEHOLDERS_ORIG :: "(string \<times> string) list" where
  "HYPERLINK_PLACEHOLDERS_ORIG =
     [(''{{Product Fact Sheet link}}'', ''Download Product Fact Sheet''),
      (''{{Product configurator link}}'', ''Click to configure product'')]"

definition rts_heading :: string where
  "rts_heading = ''Product in stock versions:'' @ [CHR 0x0A, CHR 0x0A]"

definition mto_heading :: string where
  "mto_heading = ''Avilable for made to order:'' @ [CHR 0x0A, CHR 0x0A]"

text \<open>The placeholder texts of an item without a catalog row (lines 418 to 425).\<close>

definition missing_placeholder_texts :: "string \<Rightarrow> (string \<times> string) list" where
  "missing_placeholder_texts item_no =
     map (\<lambda>(ph, label).
            (ph, if ph = ''{{Product code}}'' then label @ '' '' @ item_no else []))
       TEXT_PLACEHOLDERS_ORIG
     @ [(''{{Product RTS}}'', rts_heading), (''{{Product MTO}}'', mto_heading)]"

text \<open>The placeholder texts, hyperlinks and image addresses of an item with a row.\<close>

definition field_text :: "string \<Rightarrow> string \<Rightarrow> cell \<Rightarrow> string" where
  "field_text ph label v =
     (if isna v \<or> strip (str_of v) = [] then []
      else if ph \<in> {''{{Product code}}'', ''{{Product name}}'', ''{{Product country of origin}}''}
        then label @ '' '' @ str_of v
      else if ph \<in> {''{{CertificateName}}'', ''{{Product Consumption COM}}''}
        then label @ [CHR 0x0A, CHR 0x0A] @ str_of v
      else label @ [CHR 0x0A] @ str_of v)"

definition found_placeholder_texts :: "row \<Rightarrow> stock_row list \<Rightarrow> (string \<times> string) list" where
  "found_placeholder_texts mapping_row stock_df =
     map (\<lambda>(ph, label). (ph, field_text ph label (row_get mapping_row (normalize_col ph) (Str []))))
       TEXT_PLACEHOLDERS_ORIG
     @ [(''{{Product RTS}}'', rts_heading @ process_stock_rts_alternative mapping_row stock_df),
        (''{{Product MTO}}'', mto_heading @ process_stock_mto_alternative mapping_row stock_df)]"

definition url_of :: "row \<Rightarrow> string \<Rightarrow> string" where
  "url_of mapping_row ph =
     (let url = row_get mapping_row (normalize_col ph) (Str [])
      in if isna url \<or> strip (str_of url) = [] then [] else str_of url)"

definition hyperlink_vals :: "row \<Rightarrow> (string \<times> string \<times> string) list" where
  "hyperlink_vals mapping_row =
     map (\<lambda>(ph, display_text). (ph, display_text, url_of mapping_row ph))
       HYPERLINK_PLACEHOLDERS_ORIG"

definition image_vals :: "row \<Rightarrow> (string \<times> string) list" where
  "image_vals mapping_row = map (\<lambda>ph. (ph, url_of mapping_row ph)) IMAGE_PLACEHOLDERS_ORIG"

text \<open>
  One turn of the loop over the items. The state is the list of the slides generated
  so far and the list of the missing items. \<open>duplicate_slide\<close> appends a deep copy of
  the template slide to the deck, which the passes then change; an exception of a pass
  leaves \<open>main\<close>.
\<close>

definition process_item ::
  "fit \<Rightarrow> (string \<Rightarrow> bitmap option) \<Rightarrow> row list \<Rightarrow> stock_row list \<Rightarrow> slide
     \<Rightarrow> slide list \<times> string list \<Rightarrow> string \<Rightarrow> error + slide list \<times> string list" where
  "process_item fit fetch mapping_df stock_df template_copy st item_no =
     (case st of
        (slides, missing_items) \<Rightarrow>
          (case find_mapping_row item_no mapping_df (normalize_col ''{{Product code}}'') of
             None \<Rightarrow>
               (case replace_text_placeholders template_copy (missing_placeholder_texts item_no) of
                  Inl err \<Rightarrow> Inl err
                | Inr slide1 \<Rightarrow>
                    (case replace_hyperlink_placeholders slide1 [] of
                       Inl err \<Rightarrow> Inl err
                     | Inr slide2 \<Rightarrow> Inr (slides @ [slide2], missing_items @ [item_no])))
           | Some mapping_row \<Rightarrow>
               (case replace_text_placeholders template_copy
                       (found_placeholder_texts mapping_row stock_df) of
                  Inl err \<Rightarrow> Inl err
                | Inr slide1 \<Rightarrow>
                    (case replace_hyperlink_placeholders slide1 (hyperlink_vals mapping_row) of
                       Inl err \<Rightarrow> Inl err
                     | Inr slide2 \<Rightarrow>
                         Inr (slides @ [replace_image_placeholders_parallel fit fetch slide2
                                          (image_vals mapping_row)],
                              missing_items)))))"

text \<open>
  The loop over the items, in the order of the input. The batches of ten only drive
  the progress bar: the inner loops together visit every item once, in order.
\<close>

fun process_items ::
  "fit \<Rightarrow> (string \<Rightarrow> bitmap option) \<Rightarrow> row list \<Rightarrow> stock_row list \<Rightarrow> slide
     \<Rightarrow> slide list \<times> string list \<Rightarrow> string list \<Rightarrow> error + slide list \<times> string list" where
  "process_items fit fetch mapping_df stock_df template_copy st [] = Inr st"
| "process_items fit fetch mapping_df stock_df template_copy st (item_no # rest) =
     (case process_item fit fetch mapping_df stock_df template_copy st item_no of
        Inl err \<Rightarrow> Inl err
      | Inr st1 \<Rightarrow> process_items fit fetch mapping_df stock_df template_copy st1 rest)"



definition inserted_picture :: "fit \<Rightarrow> bitmap \<Rightarrow> shape \<Rightarrow> shape" where
  "inserted_picture fit img sh =
     add_picture img (sh_left sh) (sh_top sh)
       (fst (fit (img_width img) (img_height img) (sh_width sh) (sh_height sh)))
       (snd (fit (img_width img) (img_height img) (sh_width sh) (sh_height sh)))"


section \<open>Example data\<close>




definition prefix_catalog :: "row list" where
  "prefix_catalog =
     [[(''{{productcode}}'', Str ''031940'')], [(''{{productcode}}'', Str ''03194'')]]"



definition text_run :: "string \<Rightarrow> run" where
  "text_run t = \<lparr>run_text = t, run_format = 0, run_link = None\<rparr>"

definition text_shape :: "string \<Rightarrow> shape" where
  "text_shape t =
     \<lparr>has_text_frame = True, paragraphs = [[text_run t]], sh_left = 10, sh_top = 20,
      sh_width = 200, sh_height = 100, sh_picture = None\<rparr>"

definition photo :: bitmap where
  "photo =
     \<lparr>img_width = 100, img_height = 50, native_width = 1270000, native_height = 635000\<rparr>"

definition stretch :: fit where
  "stretch w h tw th = (tw, th)"







definition thin_photo :: bitmap where
  "thin_photo =
     \<lparr>img_width = 10, img_height = 1000, native_width = 127000, native_height = 12700000\<rparr>"

definition thin_shape :: shape where
  "thin_shape =
     \<lparr>has_text_frame = True, paragraphs = [[text_run ''{{Product Packshot1}}'']], sh_left = 0,
      sh_top = 0, sh_width = 11, sh_height = 1001, sh_picture = None\<rparr>"

definition low_shape :: shape where
  "low_shape =
     \<lparr>has_text_frame = True, paragraphs = [[text_run ''{{Product Packshot1}}'']], sh_left = 0,
      sh_top = 0, sh_width = 11, sh_height = 70, sh_picture = None\<rparr>"

section \<open>Properties of TextNormalizer\<close>

lemma lower_char_idem: "lower_char (lower_char c) = lower_char c"
  unfolding lower_char_def Let_def by auto

lemma lower_char_not_space: "\<not> is_space c \<Longrightarrow> \<not> is_space (lower_char c)"
  unfolding lower_char_def Let_def is_space_def by auto

lemma nbsp_is_space: "is_space (CHR 0xA0)"
  by (simp add: is_space_def)

lemma normalize_text_no_space: "c \<in> set (normalize_text s) \<Longrightarrow> \<not> is_space c"
  using lower_char_not_space
  by (auto simp: normalize_text_def lower_def remove_whitespace_def)

lemma normalize_text_lowered: "c \<in> set (normalize_text s) \<Longrightarrow> lower_char c = c"
  by (auto simp: normalize_text_def lower_def lower_char_idem)

lemma replace_nbsp_id: "\<forall>c \<in> set s. \<not> is_space c \<Longrightarrow> replace_nbsp s = s"
  unfolding replace_nbsp_def using nbsp_is_space by (induction s) auto

lemma remove_whitespace_id: "\<forall>c \<in> set s. \<not> is_space c \<Longrightarrow> remove_whitespace s = s"
  unfolding remove_whitespace_def by (induction s) auto

lemma lower_id: "\<forall>c \<in> set s. lower_char c = c \<Longrightarrow> lower s = s"
  unfolding lower_def by (induction s) auto

lemma normalize_text_fixed:
  assumes "\<forall>c \<in> set s. \<not> is_space c" and "\<forall>c \<in> set s. lower_char c = c"
  shows "normalize_text (Str s) = s"
  using assms by (simp add: normalize_text_def replace_nbsp_id remove_whitespace_id lower_id)

text \<open>
  Claim C8. \<open>normalize_text\<close> is idempotent: normalising the result of a normalisation
  gives that result again, for a text and for a missing cell alike; the result holds
  no whitespace character and no capital letter (lowering any of its characters
  changes nothing).
\<close>

theorem normalize_text_idempotent:
  "normalize_text (Str (normalize_text s)) = normalize_text s
   \<and> (\<forall>c \<in> set (normalize_text s). \<not> is_space c \<and> lower_char c = c)"
  using normalize_text_fixed [of "normalize_text s"]
    normalize_text_no_space [of _ s] normalize_text_lowered [of _ s]
  by blast

theorem normalize_text_idempotent_witness:
  "normalize_text (Str '' Ab C-1 '') = ''abc-1''
   \<and> normalize_text (Str ''abc-1'') = ''abc-1''
   \<and> list_all (\<lambda>c. \<not> is_space c \<and> lower_char c = c) ''abc-1''"
proof -
  have e: "normalize_text (Str '' Ab C-1 '') = ''abc-1''"
    by code_simp
  show ?thesis
    using normalize_text_idempotent [of "Str '' Ab C-1 ''"] unfolding e list_all_iff by simp
qed

section \<open>Properties of CatalogMatcher\<close>

lemma first_exact_find:
  "first_exact n k rows = find (\<lambda>r. normalize_text (row_get r k (Str [])) = n) rows"
  by (induction rows) auto

lemma first_startswith_find:
  "first_startswith p k rows = find (\<lambda>r. prefix p (normalize_text (row_get r k (Str [])))) rows"
  by (induction rows) auto

lemma py_in_single: "py_in [c] s \<longleftrightarrow> c \<in> set s"
  by (induction s) auto



lemma hd_split_from_single:
  "hd (split_from [c] acc s) = rev acc @ takeWhile (\<lambda>x. x \<noteq> c) s"
  by (induction s arbitrary: acc) auto

lemma hd_split_single: "hd (split [c] s) = takeWhile (\<lambda>x. x \<noteq> c) s"
  by (simp add: split_def hd_split_from_single)

lemma find_mapping_row_match_spec:
  "find_mapping_row item rows key = match_spec item rows key"
  by (simp add: find_mapping_row_def match_spec_def first_exact_find first_startswith_find
      py_in_single hd_split_single split: option.splits)

lemma norm_03194: "normalize_text (Str ''03194'') = ''03194''" by code_simp
lemma norm_03194A: "normalize_text (Str ''03194-A'') = ''03194-a''" by code_simp
lemma tw_03194A: "takeWhile (\<lambda>c. c \<noteq> CHR ''-'') ''03194-A'' = ''03194''" by simp

lemma prefix_fallback_example:
  assumes noexact: "\<forall>r' \<in> set rows. normalize_text (row_get r' key (Str [])) \<noteq> normalize_text (Str ''03194-A'')"
    and rin: "r \<in> set rows" and rkey: "row_get r key (Str []) = Str ''03194''"
  shows "\<exists>r'. find_mapping_row ''03194-A'' rows key = Some r' \<and> r' \<in> set rows
            \<and> prefix ''03194'' (normalize_text (row_get r' key (Str [])))
            \<and> find (\<lambda>r. prefix ''03194'' (normalize_text (row_get r key (Str [])))) rows
                = Some r'"
proof -
  let ?P = "\<lambda>r. prefix ''03194'' (normalize_text (row_get r key (Str [])))"
  have none: "find (\<lambda>r. normalize_text (row_get r key (Str [])) = normalize_text (Str ''03194-A'')) rows = None"
    using noexact by (auto simp: find_None_iff)
  have "?P r" using rkey by (simp add: norm_03194)
  with rin obtain r' where f: "find ?P rows = Some r'"
    by (cases "find ?P rows") (auto simp: find_None_iff)
  then have "?P r' \<and> r' \<in> set rows"
    by (auto simp: find_Some_iff)
  moreover have "find_mapping_row ''03194-A'' rows key = Some r'"
    unfolding find_mapping_row_match_spec match_spec_def none using f
    by (simp add: tw_03194A norm_03194)
  ultimately show ?thesis using f by blast
qed

lemma prefix_fallback_first:
  assumes noexact: "\<forall>r' \<in> set (pre @ r # post). normalize_text (row_get r' key (Str [])) \<noteq> normalize_text (Str ''03194-A'')"
    and rkey: "row_get r key (Str []) = Str ''03194''"
    and pre: "\<forall>p \<in> set pre. \<not> prefix ''03194'' (normalize_text (row_get p key (Str [])))"
  shows "find_mapping_row ''03194-A'' (pre @ r # post) key = Some r"
proof -
  let ?P = "\<lambda>r. prefix ''03194'' (normalize_text (row_get r key (Str [])))"
  have none: "find (\<lambda>r. normalize_text (row_get r key (Str [])) = normalize_text (Str ''03194-A'')) (pre @ r # post) = None"
    using noexact by (auto simp: find_None_iff)
  have "?P r" using rkey by (simp add: norm_03194)
  then have f: "find ?P (pre @ r # post) = Some r"
    using pre by (induction pre) auto
  show ?thesis
    unfolding find_mapping_row_match_spec match_spec_def none using f
    by (simp add: tw_03194A norm_03194)
qed

text \<open>
  Claim C3, as amended. \<open>find_mapping_row\<close> is the two-phase algorithm of the
  specification: the first row, in catalog order, whose key field normalises to the
  normalised item code; only when there is no such row and the code has a hyphen, the
  first row whose normalised key field starts with the normalised text before the
  first hyphen; otherwise nothing. For the code \<open>03194-A\<close>, when no row matches
  exactly and a row is keyed \<open>03194\<close>, the first row in catalog order whose key
  starts with \<open>03194\<close> is returned: it is the row keyed \<open>03194\<close> when no row before
  it has such a key.
\<close>

theorem find_mapping_row_two_phase:
  "find_mapping_row item_no mapping_df key = match_spec item_no mapping_df key
   \<and> ((\<forall>r' \<in> set (pre @ r # post).
          normalize_text (row_get r' key (Str [])) \<noteq> normalize_text (Str ''03194-A''))
        \<and> row_get r key (Str []) = Str ''03194''
      \<longrightarrow> (\<exists>r'. find_mapping_row ''03194-A'' (pre @ r # post) key = Some r'
                \<and> r' \<in> set (pre @ r # post)
                \<and> prefix ''03194'' (normalize_text (row_get r' key (Str [])))
                \<and> find (\<lambda>r. prefix ''03194'' (normalize_text (row_get r key (Str []))))
                      (pre @ r # post) = Some r')
          \<and> ((\<forall>p \<in> set pre. \<not> prefix ''03194'' (normalize_text (row_get p key (Str []))))
               \<longrightarrow> find_mapping_row ''03194-A'' (pre @ r # post) key = Some r))"
  using find_mapping_row_match_spec [of item_no mapping_df key]
    prefix_fallback_example [of "pre @ r # post" key r]
    prefix_fallback_first [of pre r post key]
  by (simp only: in_set_conv_decomp) blast

theorem find_mapping_row_two_phase_witness:
  "find_mapping_row ''03194-A''
     [[(''{{productcode}}'', Str ''0200'')], [(''{{productcode}}'', Str ''03194'')],
      [(''{{productcode}}'', Str ''03194 B'')]] ''{{productcode}}''
     = Some [(''{{productcode}}'', Str ''03194'')]
   \<and> match_spec ''03194-A''
     [[(''{{productcode}}'', Str ''0200'')], [(''{{productcode}}'', Str ''03194'')],
      [(''{{productcode}}'', Str ''03194 B'')]] ''{{productcode}}''
     = Some [(''{{productcode}}'', Str ''03194'')]"
proof -
  let ?k = "''{{productcode}}''"
  let ?pre = "[[(?k, Str ''0200'')]]" and ?r = "[(?k, Str ''03194'')]"
  let ?post = "[[(?k, Str ''03194 B'')]]"
  have n1: "normalize_text (Str ''0200'') = ''0200''" by code_simp
  have n2: "normalize_text (Str ''03194 B'') = ''03194b''" by code_simp
  have h1: "\<forall>r' \<in> set (?pre @ ?r # ?post).
      normalize_text (row_get r' ?k (Str [])) \<noteq> normalize_text (Str ''03194-A'')"
    by (simp add: row_get_def n1 n2 norm_03194 norm_03194A)
  have h2: "row_get ?r ?k (Str []) = Str ''03194''"
    by (simp add: row_get_def)
  have h3: "\<forall>p \<in> set ?pre. \<not> prefix ''03194'' (normalize_text (row_get p ?k (Str [])))"
    by (simp add: row_get_def n1)
  show ?thesis
    using find_mapping_row_two_phase [of "''03194-A''" "?pre @ ?r # ?post" ?k ?pre ?r ?post]
      h1 h2 h3
    by (simp only: append_Cons append_Nil) metis
qed

text \<open>
  The example of the claim fails as stated: in a catalog with a row keyed \<open>031940\<close>
  before the row keyed \<open>03194\<close>, no row matches the code \<open>03194-A\<close> exactly, and
  the row returned is the one keyed \<open>031940\<close>, not the one keyed \<open>03194\<close>.
\<close>

theorem find_mapping_row_keyed_row_counterexample:
  "first_exact (normalize_text (Str ''03194-A'')) ''{{productcode}}'' prefix_catalog = None
   \<and> prefix_catalog ! 1 = [(''{{productcode}}'', Str ''03194'')]
   \<and> find_mapping_row ''03194-A'' prefix_catalog ''{{productcode}}''
       = Some [(''{{productcode}}'', Str ''031940'')]
   \<and> find_mapping_row ''03194-A'' prefix_catalog ''{{productcode}}''
       \<noteq> Some [(''{{productcode}}'', Str ''03194'')]"
  by code_simp

section \<open>Properties of VariantGrouper\<close>
















section \<open>Properties of StockResolver\<close>























section \<open>Properties of the image pass\<close>

















section \<open>Properties of the text pass and of the batch loop\<close>

lemma parse_template_literal:
  "CHR 0x5C \<notin> set repl \<Longrightarrow> parse_template repl = Inr (map Lit repl)"
  by (induction repl) auto












lemma substitute_all_literal:
  "\<forall>p \<in> set vals. CHR 0x5C \<notin> set (snd p) \<Longrightarrow> \<exists>t. substitute_all vals t0 = Inr t"
  by (induction vals arbitrary: t0)
     (auto simp: re_sub_def parse_template_literal)






lemma replace_paragraph_literal:
  "\<forall>p \<in> set vals. CHR 0x5C \<notin> set (snd p) \<Longrightarrow> \<exists>runs'. replace_paragraph vals runs = Inr runs'"
  using substitute_all_literal [of "vals" "concat (map run_text runs)"]
  by (auto simp: replace_paragraph_def Let_def)

lemma try_map_total:
  "\<forall>x. \<exists>y. f x = Inr y \<Longrightarrow> \<exists>ys. try_map f xs = Inr ys"
proof (induction xs)
  case Nil
  show ?case by simp
next
  case (Cons x xs)
  then obtain ys where "try_map f xs = Inr ys" by blast
  moreover obtain y where "f x = Inr y" using Cons.prems by blast
  ultimately show ?case by simp
qed


lemma replace_text_placeholders_literal:
  assumes "\<forall>p \<in> set vals. CHR 0x5C \<notin> set (snd p)"
  shows "\<exists>slide'. replace_text_placeholders slide vals = Inr slide'"
proof -
  have "\<exists>ps. try_map (replace_paragraph vals) pars = Inr ps" for pars
    using replace_paragraph_literal [OF assms] by (intro try_map_total) blast
  then have "\<exists>sh'. replace_text_shape vals sh = Inr sh'" for sh
    by (auto simp: replace_text_shape_def split: sum.splits) (metis sum.distinct(1))
  then show ?thesis
    unfolding replace_text_placeholders_def by (intro try_map_total) blast
qed






lemma replace_link_shape_Nil: "replace_link_shape [] sh = Inr sh"
proof -
  have "try_map (replace_link_run []) runs = Inr runs" for runs
    by (induction runs) auto
  then have "try_map (try_map (replace_link_run [])) ps = Inr ps" for ps
    by (induction ps) auto
  then show ?thesis by (simp add: replace_link_shape_def)
qed

lemma replace_hyperlink_placeholders_Nil: "replace_hyperlink_placeholders slide [] = Inr slide"
  unfolding replace_hyperlink_placeholders_def
  by (induction slide) (auto simp: replace_link_shape_Nil)

lemma missing_texts_literal:
  assumes "CHR 0x5C \<notin> set item_no"
  shows "\<forall>p \<in> set (missing_placeholder_texts item_no). CHR 0x5C \<notin> set (snd p)"
  using assms
  by (simp add: missing_placeholder_texts_def TEXT_PLACEHOLDERS_ORIG_def rts_heading_def
      mto_heading_def)

lemma missing_texts_values:
  "map_of (missing_placeholder_texts item_no) ''{{Product code}}''
      = Some (''Product Code: '' @ item_no)"
  "ph \<in> fst ` set TEXT_PLACEHOLDERS_ORIG \<Longrightarrow> ph \<noteq> ''{{Product code}}'' \<Longrightarrow>
     map_of (missing_placeholder_texts item_no) ph = Some []"
  "map_of (missing_placeholder_texts item_no) ''{{Product RTS}}'' = Some rts_heading"
  "map_of (missing_placeholder_texts item_no) ''{{Product MTO}}'' = Some mto_heading"
  by (auto simp: missing_placeholder_texts_def TEXT_PLACEHOLDERS_ORIG_def)

text \<open>
  Claim C6, as amended. For an item code without a catalog row and without a
  backslash, the turn of the loop returns: it appends the code, once, to the list of
  the missing items and one slide to the deck, and the loop goes on with the next
  item. The slide is the template with the placeholder texts of a missing item
  substituted: the product code placeholder gets its label and the code, every other
  placeholder of the fixed text table gets the empty string, and the RTS and MTO
  placeholders get their headings with nothing after them.
\<close>

theorem missing_item_slide:
  assumes "find_mapping_row item_no mapping_df (normalize_col ''{{Product code}}'') = None"
    and "CHR 0x5C \<notin> set item_no"
  shows "(\<exists>slide.
            replace_text_placeholders template_copy (missing_placeholder_texts item_no) = Inr slide
          \<and> process_item fit fetch mapping_df stock_df template_copy (slides, missing_items) item_no
              = Inr (slides @ [slide], missing_items @ [item_no])
          \<and> process_items fit fetch mapping_df stock_df template_copy (slides, missing_items)
                (item_no # rest)
              = process_items fit fetch mapping_df stock_df template_copy
                  (slides @ [slide], missing_items @ [item_no]) rest)
     \<and> map_of (missing_placeholder_texts item_no) ''{{Product code}}''
         = Some (''Product Code: '' @ item_no)
     \<and> (\<forall>ph \<in> fst ` set TEXT_PLACEHOLDERS_ORIG.
           ph \<noteq> ''{{Product code}}'' \<longrightarrow> map_of (missing_placeholder_texts item_no) ph = Some [])
     \<and> map_of (missing_placeholder_texts item_no) ''{{Product RTS}}'' = Some rts_heading
     \<and> map_of (missing_placeholder_texts item_no) ''{{Product MTO}}'' = Some mto_heading"
proof -
  obtain slide where
    s: "replace_text_placeholders template_copy (missing_placeholder_texts item_no) = Inr slide"
    using replace_text_placeholders_literal [OF missing_texts_literal [OF assms(2)]] by blast
  have p: "process_item fit fetch mapping_df stock_df template_copy (slides, missing_items) item_no
              = Inr (slides @ [slide], missing_items @ [item_no])"
    using assms(1) s by (simp add: process_item_def replace_hyperlink_placeholders_Nil)
  show ?thesis
    using s p by (auto simp: missing_texts_values)
qed

theorem missing_item_slide_witness:
  "process_item stretch (\<lambda>url. None) [[(''{{productcode}}'', Str ''03194'')]] []
      [text_shape ''{{Product code}}'', text_shape ''{{ Product height }}'']
      ([], [''A0'']) ''X1''
     = Inr ([[text_shape ''Product Code: X1'', text_shape []]], [''A0'', ''X1''])
   \<and> map_of (missing_placeholder_texts ''X1'') ''{{Product code}}'' = Some ''Product Code: X1''
   \<and> map_of (missing_placeholder_texts ''X1'') ''{{Product height}}'' = Some []"
proof -
  let ?template = "[text_shape ''{{Product code}}'', text_shape ''{{ Product height }}'']"
  have n: "find_mapping_row ''X1'' [[(''{{productcode}}'', Str ''03194'')]]
             (normalize_col ''{{Product code}}'') = None"
    by code_simp
  have b: "CHR 0x5C \<notin> set ''X1''" by simp
  have e: "replace_text_placeholders ?template (missing_placeholder_texts ''X1'')
             = Inr [text_shape ''Product Code: X1'', text_shape []]"
    by code_simp
  have h: "''{{Product height}}'' \<in> fst ` set TEXT_PLACEHOLDERS_ORIG"
    by (simp add: TEXT_PLACEHOLDERS_ORIG_def)
  show ?thesis
    using missing_item_slide [OF n b, of ?template stretch "\<lambda>url. None" "[]" "[]" "[''A0'']" "[]"]
      e h
    by auto
qed

text \<open>
  The claim as stated fails: the RTS and MTO placeholders of the slide of a missing
  item do not get the empty string but their headings.
\<close>

theorem missing_item_all_blank_counterexample:
  "map_of (missing_placeholder_texts ''X1'') ''{{Product RTS}}''
     = Some (''Product in stock versions:'' @ [CHR 0x0A, CHR 0x0A])
   \<and> map_of (missing_placeholder_texts ''X1'') ''{{Product MTO}}''
     = Some (''Avilable for made to order:'' @ [CHR 0x0A, CHR 0x0A])
   \<and> process_item stretch (\<lambda>url. None) [] []
        [text_shape ''{{Product code}}'', text_shape ''{{Product RTS}}''] ([], []) ''X1''
     = Inr ([[text_shape ''Product Code: X1'',
              text_shape (''Product in stock versions:'' @ [CHR 0x0A, CHR 0x0A])]], [''X1''])"
  by code_simp

text \<open>
  An item code with a backslash that does not start a valid escape makes \<open>re.sub\<close>
  raise, which ends the loop: the hypothesis on the item code above is needed.
\<close>

lemma missing_item_backslash_aborts:
  "process_items stretch (\<lambda>url. None) [] [] [text_shape ''{{Product code}}''] ([], [])
     [''X'' @ [CHR 0x5C], ''Y''] = Inl ReError"
  by code_simp

section \<open>Properties of the scaling of pictures\<close>

lemma of_int_le_pow2: "a \<le> 2 ^ k \<Longrightarrow> (of_int a :: rat) \<le> 2 ^ k"
  using of_int_le_iff [of a "2 ^ k", where ?'a = rat] by simp

lemma pow2_le_of_int: "2 ^ k \<le> a \<Longrightarrow> (2 ^ k :: rat) \<le> of_int a"
  using of_int_le_iff [of "2 ^ k" a, where ?'a = rat] by simp

lemma pow2_ratio: "(2::rat) powi a / 2 powi b = 2 powi (a - b)"
  by (rule power_int_diff [symmetric]) simp

lemma pow2_prod: "(2::rat) powi a * 2 powi b = 2 powi (a + b)"
  by (rule power_int_add [symmetric]) simp

lemma pow2_neg: "(2::rat) powi (- int k) = 1 / 2 ^ k"
proof -
  have "(2::rat) powi (- int k) = inverse (2 powi int k)" by (rule power_int_minus)
  also have "\<dots> = 1 / 2 ^ k" by (simp add: field_simps)
  finally show ?thesis .
qed

lemma ilog2_bounds:
  assumes "0 < x"
  shows "2 powi ilog2 x \<le> x \<and> x < 2 powi (ilog2 x + 1)"
proof (cases "1 \<le> x")
  case True
  let ?n = "\<lfloor>x\<rfloor>"
  have n: "0 < ?n" using True by linarith
  from bitlen_bounds [OF n] have b: "2 ^ nat (bitlen ?n - 1) \<le> ?n" "?n < 2 ^ nat (bitlen ?n)"
    by auto
  have bl: "1 \<le> bitlen ?n" using n by (simp add: bitlen_def floorlog_def)
  have e: "ilog2 x = bitlen ?n - 1" using True by (simp add: ilog2_def)
  have "(2::rat) powi (bitlen ?n - 1) = 2 ^ nat (bitlen ?n - 1)"
    using bl by (simp add: power_int_def)
  also have "\<dots> \<le> of_int ?n" using b(1) by (rule pow2_le_of_int)
  also have "\<dots> \<le> x" by simp
  finally have lo: "2 powi ilog2 x \<le> x" unfolding e .
  have "?n + 1 \<le> 2 ^ nat (bitlen ?n)" using b(2) by simp
  then have "(of_int (?n + 1) :: rat) \<le> 2 ^ nat (bitlen ?n)"
    by (rule of_int_le_pow2)
  moreover have "x < of_int (?n + 1)" by linarith
  ultimately have "x < 2 ^ nat (bitlen ?n)" by (rule less_le_trans [rotated])
  moreover have "(2::rat) powi (bitlen ?n) = 2 ^ nat (bitlen ?n)"
    using bl by (simp add: power_int_def)
  ultimately have hi: "x < 2 powi (ilog2 x + 1)" unfolding e by simp
  show ?thesis using lo hi by simp
next
  case False
  let ?y = "1 / x"
  let ?m = "\<lceil>?y\<rceil> - 1"
  have y: "1 < ?y" using False assms by simp
  have m: "0 < ?m" using y by linarith
  from bitlen_bounds [OF m] have b: "2 ^ nat (bitlen ?m - 1) \<le> ?m" "?m < 2 ^ nat (bitlen ?m)"
    by auto
  have bl: "1 \<le> bitlen ?m" using m by (simp add: bitlen_def floorlog_def)
  have e: "ilog2 x = - bitlen ?m" using False by (simp add: ilog2_def)
  have "?m + 1 \<le> 2 ^ nat (bitlen ?m)" using b(2) by simp
  then have "(of_int (?m + 1) :: rat) \<le> 2 ^ nat (bitlen ?m)"
    by (rule of_int_le_pow2)
  moreover have "?y \<le> of_int (?m + 1)" by simp
  ultimately have "?y \<le> 2 ^ nat (bitlen ?m)" by (rule order_trans [rotated])
  then have "1 / 2 ^ nat (bitlen ?m) \<le> x"
    using assms by (simp add: field_simps)
  moreover have "(2::rat) powi (- bitlen ?m) = 1 / 2 ^ nat (bitlen ?m)"
    using bl by (simp add: power_int_def field_simps)
  ultimately have lo: "2 powi ilog2 x \<le> x" unfolding e by simp
  have "(2 ^ nat (bitlen ?m - 1) :: rat) \<le> of_int ?m"
    using b(1) by (rule pow2_le_of_int)
  moreover have "of_int ?m < ?y" by linarith
  ultimately have "2 ^ nat (bitlen ?m - 1) < ?y" by (rule le_less_trans)
  then have "x < 1 / 2 ^ nat (bitlen ?m - 1)"
    using assms by (simp add: field_simps)
  moreover have "(2::rat) powi (- bitlen ?m + 1) = 1 / 2 ^ nat (bitlen ?m - 1)"
  proof -
    have "- bitlen ?m + 1 = - (bitlen ?m - 1)" by simp
    then have "(2::rat) powi (- bitlen ?m + 1) = inverse (2 powi (bitlen ?m - 1))"
      by (simp only: power_int_minus)
    also have "\<dots> = 1 / 2 ^ nat (bitlen ?m - 1)"
      using bl by (simp add: power_int_def field_simps)
    finally show ?thesis .
  qed
  ultimately have hi: "x < 2 powi (ilog2 x + 1)" unfolding e by simp
  show ?thesis using lo hi by simp
qed

lemma ilog2_mono:
  assumes "0 < x" "x \<le> y"
  shows "ilog2 x \<le> ilog2 y"
proof (rule ccontr)
  assume "\<not> ilog2 x \<le> ilog2 y"
  then have "ilog2 y + 1 \<le> ilog2 x" by simp
  then have "(2::rat) powi (ilog2 y + 1) \<le> 2 powi ilog2 x"
    by (intro power_int_increasing) simp_all
  moreover have "y < 2 powi (ilog2 y + 1)" using ilog2_bounds [of y] assms by simp
  moreover have "2 powi ilog2 x \<le> x" using ilog2_bounds [of x] assms by simp
  ultimately show False using assms by linarith
qed

lemma ilog2_eqI:
  assumes "0 < x" "2 powi e \<le> x" "x < 2 powi (e + 1)"
  shows "ilog2 x = e"
proof (rule ccontr)
  assume ne: "ilog2 x \<noteq> e"
  from ilog2_bounds [OF assms(1)]
  have b: "2 powi ilog2 x \<le> x" "x < 2 powi (ilog2 x + 1)" by simp_all
  show False
  proof (cases "ilog2 x < e")
    case True
    then have "(2::rat) powi (ilog2 x + 1) \<le> 2 powi e"
      by (intro power_int_increasing) simp_all
    then show False using b(2) assms(2) by linarith
  next
    case False
    then have "e + 1 \<le> ilog2 x" using ne by simp
    then have "(2::rat) powi (e + 1) \<le> 2 powi ilog2 x"
      by (intro power_int_increasing) simp_all
    then show False using b(1) assms(3) by linarith
  qed
qed

lemma rne_of_int: "rne (of_int k) = k"
  by (simp add: rne_def)

lemma rne_floor: "\<lfloor>q\<rfloor> \<le> rne q" "rne q \<le> \<lfloor>q\<rfloor> + 1"
  by (simp_all add: rne_def Let_def)

lemma rne_mono:
  assumes "q \<le> q'"
  shows "rne q \<le> rne q'"
proof (cases "\<lfloor>q\<rfloor> = \<lfloor>q'\<rfloor>")
  case True
  then show ?thesis using assms by (auto simp: rne_def Let_def)
next
  case False
  then have "\<lfloor>q\<rfloor> + 1 \<le> \<lfloor>q'\<rfloor>"
    using assms floor_mono [of q q'] by linarith
  then show ?thesis using rne_floor(2) [of q] rne_floor(1) [of q'] by linarith
qed

lemma fl_pos_mono:
  assumes "0 < x" "x \<le> y"
  shows "fl_pos x \<le> fl_pos y"
proof -
  have y: "0 < y" using assms by simp
  let ?ux = "(2::rat) powi (ilog2 x - 52)" and ?uy = "(2::rat) powi (ilog2 y - 52)"
  have ux: "0 < ?ux" and uy: "0 < ?uy" by simp_all
  show ?thesis
  proof (cases "ilog2 x = ilog2 y")
    case True
    have "x / ?ux \<le> y / ?ux" using assms ux by (simp add: divide_right_mono)
    then have "rne (x / ?ux) \<le> rne (y / ?ux)" by (rule rne_mono)
    then have "of_int (rne (x / ?ux)) * ?ux \<le> of_int (rne (y / ?ux)) * ?ux"
      using ux by (simp add: mult_right_mono)
    then show ?thesis using True by (simp add: fl_pos_def Let_def)
  next
    case False
    then have lt: "ilog2 x + 1 \<le> ilog2 y" using ilog2_mono [OF assms] by simp
    have "x < 2 powi (ilog2 x + 1)" using ilog2_bounds [OF assms(1)] by simp
    then have "x / ?ux \<le> 2 powi (ilog2 x + 1) / ?ux"
      using ux by (simp add: divide_right_mono)
    moreover have "(2::rat) powi (ilog2 x + 1) / ?ux = of_int (2 ^ 53)"
      using pow2_ratio [of "ilog2 x + 1" "ilog2 x - 52"] by simp
    ultimately have r: "rne (x / ?ux) \<le> 2 ^ 53"
      using rne_mono [of "x / ?ux" "of_int (2 ^ 53)"] by (simp only: rne_of_int)
    have "of_int (rne (x / ?ux)) * ?ux \<le> of_int (2 ^ 53) * ?ux"
      using r ux by (intro mult_right_mono) (simp_all only: of_int_le_iff less_imp_le)
    also have "of_int (2 ^ 53) * ?ux = 2 powi (ilog2 x + 1)"
    proof -
      have i: "53 + (ilog2 x - 52) = ilog2 x + 1" by simp
      show ?thesis using pow2_prod [of 53 "ilog2 x - 52"] unfolding i by simp
    qed
    finally have a: "fl_pos x \<le> 2 powi (ilog2 x + 1)"
      unfolding fl_pos_def Let_def .
    have "2 powi ilog2 y \<le> y" using ilog2_bounds [OF y] by simp
    then have "2 powi ilog2 y / ?uy \<le> y / ?uy"
      using uy by (simp add: divide_right_mono)
    moreover have "(2::rat) powi ilog2 y / ?uy = of_int (2 ^ 52)"
      using pow2_ratio [of "ilog2 y" "ilog2 y - 52"] by simp
    ultimately have r2: "2 ^ 52 \<le> rne (y / ?uy)"
      using rne_mono [of "of_int (2 ^ 52)" "y / ?uy"] by (simp only: rne_of_int)
    have "2 powi ilog2 y = of_int (2 ^ 52) * ?uy"
    proof -
      have i: "52 + (ilog2 y - 52) = ilog2 y" by simp
      show ?thesis using pow2_prod [of 52 "ilog2 y - 52"] unfolding i by simp
    qed
    also have "\<dots> \<le> of_int (rne (y / ?uy)) * ?uy"
      using r2 uy by (intro mult_right_mono) (simp_all only: of_int_le_iff less_imp_le)
    finally have b: "2 powi ilog2 y \<le> fl_pos y"
      unfolding fl_pos_def Let_def .
    have "(2::rat) powi (ilog2 x + 1) \<le> 2 powi ilog2 y"
      using lt by (intro power_int_increasing) simp_all
    then show ?thesis using a b by linarith
  qed
qed

lemma fl_pos_of_nat:
  assumes "0 < n" "n < 2 ^ 53"
  shows "fl_pos (of_nat n) = of_nat n"
proof -
  let ?x = "of_nat n :: rat"
  have x: "0 < ?x" using assms by simp
  have "2 powi ilog2 ?x \<le> ?x" using ilog2_bounds [OF x] by simp
  moreover have "?x < 2 powi 53"
  proof -
    have "?x < of_nat (2 ^ 53)" using assms(2) by (simp only: of_nat_less_iff)
    then show ?thesis by simp
  qed
  ultimately have "(2::rat) powi ilog2 ?x < 2 powi 53" by linarith
  then have e: "ilog2 ?x \<le> 52"
    using power_int_increasing [of 53 "ilog2 ?x" "2::rat"] by (cases "ilog2 ?x \<le> 52") auto
  define k where "k = nat (52 - ilog2 ?x)"
  have u: "(2::rat) powi (ilog2 ?x - 52) = 1 / 2 ^ k"
  proof -
    have "ilog2 ?x - 52 = - int k" using e by (simp add: k_def)
    then show ?thesis by (simp only: pow2_neg)
  qed
  have "?x / (1 / 2 ^ k) = of_int (int n * 2 ^ k)" by simp
  then have "rne (?x / (1 / 2 ^ k)) = int n * 2 ^ k" by (simp only: rne_of_int)
  then show ?thesis by (simp add: fl_pos_def Let_def u)
qed

lemma fl_ge_of_nat:
  assumes "0 < n" "n < 2 ^ 53" "of_nat n \<le> x"
  shows "of_nat n \<le> fl x"
proof -
  have x: "0 < x" using assms(1,3) by (meson of_nat_0_less_iff less_le_trans)
  have "fl_pos (of_nat n) \<le> fl_pos x"
    using assms by (intro fl_pos_mono) simp_all
  then show ?thesis using x by (simp add: fl_def fl_pos_of_nat [OF assms(1,2)])
qed

lemma fl_of_nat: "n < 2 ^ 53 \<Longrightarrow> fl (of_nat n) = of_nat n"
  by (cases "n = 0") (simp_all add: fl_def fl_pos_of_nat)

lemma trunc_ge_of_nat: "of_nat n \<le> x \<Longrightarrow> int n \<le> trunc x"
proof -
  assume a: "of_nat n \<le> x"
  then have "0 \<le> x" by (meson of_nat_0_le_iff order_trans)
  moreover have "int n \<le> \<lfloor>x\<rfloor>" using a by (simp add: le_floor_iff)
  ultimately show ?thesis by (simp add: trunc_def)
qed

lemma scaled_ge:
  assumes k: "0 < k" and o: "0 < ow" and b: "k * ow < 2 ^ 53" and s: "of_nat k \<le> scale"
  shows "int (k * ow) \<le> trunc (fl (fl (of_nat ow) * scale))"
proof -
  have "1 * ow \<le> k * ow" using k by (intro mult_le_mono1) simp
  then have "ow < 2 ^ 53" using b by (simp only: mult_1 le_less_trans)
  then have f: "fl (of_nat ow) = of_nat ow" by (rule fl_of_nat)
  have "(of_nat (k * ow) :: rat) = of_nat ow * of_nat k" by simp
  also have "\<dots> \<le> of_nat ow * scale" using s by (intro mult_left_mono) simp_all
  finally have "of_nat (k * ow) \<le> fl (of_nat ow * scale)"
    using k o b by (intro fl_ge_of_nat) simp_all
  then show ?thesis unfolding f by (rule trunc_ge_of_nat)
qed

lemma ratio_ge:
  assumes k: "0 < k" and o: "0 < ow" and b: "k * ow < 2 ^ 53" and t: "int (k * ow) \<le> tw"
  shows "of_nat k \<le> fl (of_int tw / of_nat ow)"
proof -
  have "k * 1 \<le> k * ow" using o by (intro mult_le_mono2) simp
  then have kb: "k < 2 ^ 53" using b by (simp only: mult_1_right le_less_trans)
  have "(of_nat (k * ow) :: rat) \<le> of_int tw"
    using t by (metis of_int_le_iff of_int_of_nat_eq)
  then have "(of_nat k :: rat) \<le> of_int tw / of_nat ow"
    using o by (simp add: pos_le_divide_eq)
  then show ?thesis using k kb by (intro fl_ge_of_nat)
qed

lemma python_fit_lower:
  assumes "0 < k" "0 < ow" "0 < oh" "k * ow < 2 ^ 53" "k * oh < 2 ^ 53"
    and "int (k * ow) \<le> tw" "int (k * oh) \<le> th"
  shows "int (k * ow) \<le> fst (python_fit ow oh tw th) \<and> int (k * oh) \<le> snd (python_fit ow oh tw th)"
proof -
  let ?scale = "min (fl (of_int tw / of_nat ow)) (fl (of_int th / of_nat oh))"
  have "of_nat k \<le> ?scale"
    using ratio_ge [OF assms(1,2,4,6)] ratio_ge [OF assms(1,3,5,7)] by simp
  then show ?thesis
    using scaled_ge [OF assms(1,2,4)] scaled_ge [OF assms(1,3,5)]
    by (simp add: python_fit_def Let_def)
qed


lemma fl_at:
  assumes "0 < x" "2 powi e \<le> x" "x < 2 powi (e + 1)" "rne (x / 2 powi (e - 52)) = m"
  shows "fl x = of_int m * 2 powi (e - 52)"
  using assms(1,4) by (simp add: fl_def fl_pos_def Let_def ilog2_eqI [OF assms(1-3)])

lemma fit_same: "python_fit 10 1000 11 1001 = (10, 1000)"
proof -
  have a: "fl (11 / 10) = 4953959590107546 / 4503599627370496"
  proof -
    have "rne ((11 / 10) / 2 powi (0 - 52)) = 4953959590107546" by code_simp
    from fl_at [OF _ _ _ this] show ?thesis by simp
  qed
  have b: "fl (1001 / 1000) = 4508103226997866 / 4503599627370496"
  proof -
    have "rne ((1001 / 1000) / 2 powi (0 - 52)) = 4508103226997866" by code_simp
    from fl_at [OF _ _ _ this] show ?thesis by simp
  qed
  have c: "fl (10 * (4508103226997866 / 4503599627370496)) = 5635129033747332 / 562949953421312"
  proof -
    have "rne ((10 * (4508103226997866 / 4503599627370496)) / 2 powi (3 - 52)) = 5635129033747332"
      by code_simp
    from fl_at [OF _ _ _ this] show ?thesis by simp
  qed
  have d: "fl (1000 * (4508103226997866 / 4503599627370496)) = 8804889115230207 / 8796093022208"
  proof -
    have "rne ((1000 * (4508103226997866 / 4503599627370496)) / 2 powi (9 - 52)) = 8804889115230207"
      by code_simp
    from fl_at [OF _ _ _ this] show ?thesis by simp
  qed
  have t: "fl (of_nat 10) = 10" "fl (of_nat 1000) = 1000"
    using fl_of_nat [of 10] fl_of_nat [of 1000] by simp_all
  have m: "min (fl (of_int 11 / of_nat 10)) (fl (of_int 1001 / of_nat 1000))
             = 4508103226997866 / 4503599627370496"
    using a b by simp
  have tr: "trunc (5635129033747332 / 562949953421312) = 10"
    "trunc (8804889115230207 / 8796093022208) = 1000"
    by code_simp+
  show ?thesis
    unfolding python_fit_def Let_def m t c d tr by simp
qed

lemma add_picture_given:
  "w \<noteq> 0 \<Longrightarrow> h \<noteq> 0 \<Longrightarrow>
   add_picture img x y w h =
     \<lparr>has_text_frame = False, paragraphs = [], sh_left = x, sh_top = y,
      sh_width = w, sh_height = h, sh_picture = Some img\<rparr>"
  by (simp add: add_picture_def pptx_scale_def)

lemma inserted_picture_given:
  assumes "python_fit (img_width img) (img_height img) (sh_width sh) (sh_height sh) = (w, h)"
    and "w \<noteq> 0" "h \<noteq> 0"
  shows "sh_width (inserted_picture python_fit img sh) = w"
    and "sh_height (inserted_picture python_fit img sh) = h"
  using assms by (simp_all add: inserted_picture_def add_picture_given)

text \<open>
  A dimension that the pass computes as zero is not a dimension of the picture: for a
  bitmap of 10 by 1000 in a shape of 11 by 70 the computed width is 0, and the picture
  is 1 wide, the width that the library derives from the height of 70 and the native
  size of the image.
\<close>

lemma fit_zero_width: "python_fit 10 1000 11 70 = (0, 70)"
proof -
  have a: "fl (11 / 10) = 4953959590107546 / 4503599627370496"
  proof -
    have "rne ((11 / 10) / 2 powi (0 - 52)) = 4953959590107546" by code_simp
    from fl_at [OF _ _ _ this] show ?thesis by simp
  qed
  have b: "fl (70 / 1000) = 5044031582654956 / 72057594037927936"
  proof -
    have "rne ((70 / 1000) / 2 powi (- 4 - 52)) = 5044031582654956" by code_simp
    from fl_at [OF _ _ _ this] show ?thesis by simp
  qed
  have c: "fl (10 * (5044031582654956 / 72057594037927936))
             = 6305039478318695 / 9007199254740992"
  proof -
    have "rne ((10 * (5044031582654956 / 72057594037927936)) / 2 powi (- 1 - 52))
            = 6305039478318695"
      by code_simp
    from fl_at [OF _ _ _ this] show ?thesis by simp
  qed
  have d: "fl (1000 * (5044031582654956 / 72057594037927936)) = 70"
  proof -
    have "rne ((1000 * (5044031582654956 / 72057594037927936)) / 2 powi (6 - 52))
            = 4925812092436480"
      by code_simp
    from fl_at [OF _ _ _ this] show ?thesis by simp
  qed
  have t: "fl (of_nat 10) = 10" "fl (of_nat 1000) = 1000"
    using fl_of_nat [of 10] fl_of_nat [of 1000] by simp_all
  have m: "min (fl (of_int 11 / of_nat 10)) (fl (of_int 70 / of_nat 1000))
             = 5044031582654956 / 72057594037927936"
    using a b by simp
  have tr: "trunc (6305039478318695 / 9007199254740992) = 0" "trunc 70 = 70"
    by code_simp+
  show ?thesis
    unfolding python_fit_def Let_def m t c d tr by simp
qed

lemma scale_zero_width: "pptx_scale thin_photo 0 70 = (1, 70)"
proof -
  have t: "fl 70 = 70" "fl 12700000 = 12700000" "fl 127000 = 127000"
    using fl_of_nat [of 70] fl_of_nat [of 12700000] fl_of_nat [of 127000] by simp_all
  have a: "fl (70 / 12700000) = 6507197909466047 / 1180591620717411303424"
  proof -
    have "rne ((70 / 12700000) / 2 powi (- 18 - 52)) = 6507197909466047" by code_simp
    from fl_at [OF _ _ _ this] show ?thesis by simp
  qed
  have b: "fl (127000 * (6507197909466047 / 1180591620717411303424))
             = 6305039478318695 / 9007199254740992"
  proof -
    have "rne ((127000 * (6507197909466047 / 1180591620717411303424)) / 2 powi (- 1 - 52))
            = 6305039478318695"
      by code_simp
    from fl_at [OF _ _ _ this] show ?thesis by simp
  qed
  have r: "rne (6305039478318695 / 9007199254740992) = 1" by code_simp
  have s: "pptx_scale thin_photo 0 70
             = (rne (fl (fl 127000 * fl (fl 70 / fl 12700000))), 70)"
    by (simp add: pptx_scale_def thin_photo_def Let_def)
  show ?thesis
    unfolding s t a b r by (rule refl)
qed

lemma zero_width_replaced:
  "python_fit (img_width thin_photo) (img_height thin_photo) (sh_width low_shape)
       (sh_height low_shape) = (0, 70)
   \<and> sh_width (inserted_picture python_fit thin_photo low_shape) = 1
   \<and> sh_height (inserted_picture python_fit thin_photo low_shape) = 70"
proof -
  have g: "img_width thin_photo = 10" "img_height thin_photo = 1000" "sh_width low_shape = 11"
    "sh_height low_shape = 70"
    by (simp_all add: thin_photo_def low_shape_def)
  show ?thesis
    using fit_zero_width scale_zero_width
    by (simp add: g inserted_picture_def add_picture_def)
qed

text \<open>
  Claim C10, as amended. The scale factor is not capped at 1. Whenever the two
  dimensions that the pass computes are not zero, they are the width and the height of
  the inserted picture, and they are the width and the height of the bitmap, each
  multiplied in float arithmetic by the smaller of the two ratios of the shape to the
  bitmap and truncated to an integer (the presentation library takes a width or
  height of zero as not given). For a bitmap of positive width \<open>w\<close> and height \<open>h\<close>
  and a number \<open>k\<close> of at least 1 with \<open>k * w\<close> and \<open>k * h\<close> below \<open>2 ^ 53\<close>, a
  shape that is at least \<open>k * w\<close> wide and \<open>k * h\<close> high gets a scale factor of at
  least \<open>k\<close> and a picture at least \<open>k * w\<close> wide and \<open>k * h\<close> high, with the
  dimensions that the pass computes: with \<open>k = 1\<close> the picture is never smaller than
  the bitmap, with \<open>k = 2\<close> it is strictly larger.
\<close>

theorem picture_scale_uncapped:
  "(python_fit (img_width img) (img_height img) (sh_width sh) (sh_height sh)
        = (new_width, new_height)
      \<and> new_width \<noteq> 0 \<and> new_height \<noteq> 0
    \<longrightarrow> new_width
          = trunc (fl (fl (of_nat (img_width img))
              * min (fl (of_int (sh_width sh) / of_nat (img_width img)))
                    (fl (of_int (sh_height sh) / of_nat (img_height img)))))
        \<and> new_height
          = trunc (fl (fl (of_nat (img_height img))
              * min (fl (of_int (sh_width sh) / of_nat (img_width img)))
                    (fl (of_int (sh_height sh) / of_nat (img_height img)))))
        \<and> sh_width (inserted_picture python_fit img sh) = new_width
        \<and> sh_height (inserted_picture python_fit img sh) = new_height)
   \<and> (0 < k \<and> 0 < img_width img \<and> 0 < img_height img
        \<and> k * img_width img < 2 ^ 53 \<and> k * img_height img < 2 ^ 53
        \<and> int (k * img_width img) \<le> sh_width sh \<and> int (k * img_height img) \<le> sh_height sh
      \<longrightarrow> of_nat k \<le> min (fl (of_int (sh_width sh) / of_nat (img_width img)))
                         (fl (of_int (sh_height sh) / of_nat (img_height img)))
          \<and> sh_width (inserted_picture python_fit img sh)
              = fst (python_fit (img_width img) (img_height img) (sh_width sh) (sh_height sh))
          \<and> sh_height (inserted_picture python_fit img sh)
              = snd (python_fit (img_width img) (img_height img) (sh_width sh) (sh_height sh))
          \<and> int (k * img_width img) \<le> sh_width (inserted_picture python_fit img sh)
          \<and> int (k * img_height img) \<le> sh_height (inserted_picture python_fit img sh))"
proof -
  let ?fit = "python_fit (img_width img) (img_height img) (sh_width sh) (sh_height sh)"
  let ?scale = "min (fl (of_int (sh_width sh) / of_nat (img_width img)))
                    (fl (of_int (sh_height sh) / of_nat (img_height img)))"
  have first: "new_width = trunc (fl (fl (of_nat (img_width img)) * ?scale))
      \<and> new_height = trunc (fl (fl (of_nat (img_height img)) * ?scale))
      \<and> sh_width (inserted_picture python_fit img sh) = new_width
      \<and> sh_height (inserted_picture python_fit img sh) = new_height"
    if f: "?fit = (new_width, new_height)" and n: "new_width \<noteq> 0" "new_height \<noteq> 0"
  proof -
    have "new_width = trunc (fl (fl (of_nat (img_width img)) * ?scale))"
      "new_height = trunc (fl (fl (of_nat (img_height img)) * ?scale))"
      using f by (simp_all add: python_fit_def Let_def)
    then show ?thesis
      using inserted_picture_given [OF f n] by simp
  qed
  have second: "of_nat k \<le> ?scale
      \<and> sh_width (inserted_picture python_fit img sh) = fst ?fit
      \<and> sh_height (inserted_picture python_fit img sh) = snd ?fit
      \<and> int (k * img_width img) \<le> sh_width (inserted_picture python_fit img sh)
      \<and> int (k * img_height img) \<le> sh_height (inserted_picture python_fit img sh)"
    if k: "0 < k" and w: "0 < img_width img" and h: "0 < img_height img"
      and bw: "k * img_width img < 2 ^ 53" and bh: "k * img_height img < 2 ^ 53"
      and tw: "int (k * img_width img) \<le> sh_width sh"
      and th: "int (k * img_height img) \<le> sh_height sh"
  proof -
    have s: "of_nat k \<le> ?scale"
      using ratio_ge [OF k w bw tw] ratio_ge [OF k h bh th] by simp
    have l: "int (k * img_width img) \<le> fst ?fit" "int (k * img_height img) \<le> snd ?fit"
      using python_fit_lower [OF k w h bw bh tw th] by simp_all
    have "0 < k * img_width img" "0 < k * img_height img"
      using k w h by simp_all
    then have p: "0 < int (k * img_width img)" "0 < int (k * img_height img)"
      by (simp_all only: of_nat_0_less_iff)
    have n: "fst ?fit \<noteq> 0" "snd ?fit \<noteq> 0"
      using l p by linarith+
    have "?fit = (fst ?fit, snd ?fit)" by simp
    from inserted_picture_given [OF this n] show ?thesis
      using s l by simp
  qed
  show ?thesis
    using first second by blast
qed

theorem picture_scale_uncapped_witness:
  "python_fit (img_width photo) (img_height photo)
       (sh_width (text_shape ''{{Product Packshot1}}''))
       (sh_height (text_shape ''{{Product Packshot1}}'')) = (200, 100)
   \<and> sh_width (inserted_picture python_fit photo (text_shape ''{{Product Packshot1}}'')) = 200
   \<and> sh_height (inserted_picture python_fit photo (text_shape ''{{Product Packshot1}}'')) = 100
   \<and> img_width photo = 100 \<and> img_height photo = 50
   \<and> (2::rat) \<le> min (fl (200 / 100)) (fl (100 / 50))"
proof -
  let ?sh = "text_shape ''{{Product Packshot1}}''"
  have f: "fl 2 = 2" "fl 100 = 100" "fl 50 = 50" "fl 200 = 200"
    using fl_of_nat [of 2] fl_of_nat [of 100] fl_of_nat [of 50] fl_of_nat [of 200]
    by simp_all
  have g: "img_width photo = 100" "img_height photo = 50" "sh_width ?sh = 200"
    "sh_height ?sh = 100"
    by (simp_all add: photo_def text_shape_def)
  have e: "python_fit (img_width photo) (img_height photo) (sh_width ?sh) (sh_height ?sh)
             = (200, 100)"
    by (simp add: python_fit_def g f trunc_def)
  show ?thesis
    using picture_scale_uncapped [of photo ?sh 200 100 2] e
    by (simp add: g f)
qed

text \<open>
  The claim as stated fails: a bitmap of 10 by 1000 in a shape of 11 by 1001, which is
  larger in both dimensions, gets a picture of 10 by 1000, no larger than the bitmap.
  The quotient 1001 / 1000 is rounded down, its product with 1000 is rounded below
  1001, and the truncation gives 1000.
\<close>

theorem picture_always_larger_counterexample:
  "int (img_width thin_photo) < sh_width thin_shape
   \<and> int (img_height thin_photo) < sh_height thin_shape
   \<and> sh_width (inserted_picture python_fit thin_photo thin_shape) = int (img_width thin_photo)
   \<and> sh_height (inserted_picture python_fit thin_photo thin_shape) = int (img_height thin_photo)"
  using fit_same
  by (simp add: inserted_picture_def add_picture_given thin_photo_def thin_shape_def)

end
